theory Spec2Isabelle
  imports Main "HOL-Library.Word" "HOL-Library.Sublist"
begin

unbundle bit_operations_syntax

section \<open>The configuration header acrust.h as a preprocessor program\<close>

text \<open>
  The repository's one source file, \<^verbatim>\<open>c_headers/acrust.h\<close>, is a C header made of
  preprocessor directives only.  What it "does" is what the C preprocessor does with it:
  starting from the macro table it finds (the build's \<^verbatim>\<open>CONFIG_*\<close> switches and
  whatever was defined before the header is included), it defines and undefines macros,
  some of them under \<^verbatim>\<open>#ifdef\<close>/\<^verbatim>\<open>#ifndef\<close>.  The model below is that: preprocessing
  tokens, macros, directives, and the run of a directive list over a macro table.
\<close>

subsection \<open>Preprocessing tokens and macros\<close>

text \<open>
  A replacement list is a list of preprocessing tokens: identifiers (keywords included,
  the preprocessor does not tell them apart), punctuators, string literals (the text
  between the quotes) and preprocessing numbers.
\<close>

datatype token = Ident string | Punct string | StrLit string | Num string

text \<open>
  \<^verbatim>\<open>#define NAME body\<close> is an object-like macro, \<^verbatim>\<open>#define NAME(p1, ..., pn) body\<close>
  a function-like one.
\<close>

datatype macro = Object "token list" | Function "string list" "token list"

text \<open>
  The lines of a header.  A conditional group carries the lines it encloses (none of the
  groups of this header has an \<^verbatim>\<open>#else\<close>).  Comments are kept: they do nothing, but
  the header's section comments are the only place where the source says what a group of
  definitions is for.
\<close>

datatype directive =
    Define string macro
  | Undef string
  | Ifdef string "directive list"
  | Ifndef string "directive list"
  | Comment string

type_synonym env = "string \<rightharpoonup> macro"

subsection \<open>Running directives\<close>

text \<open>
  \<^verbatim>\<open>#define\<close> binds the name (the definition in force is the last one processed, which
  is what the compilers building this header do, with a diagnostic where an earlier
  definition differs), \<^verbatim>\<open>#undef\<close> removes it, \<^verbatim>\<open>#ifdef\<close>/\<^verbatim>\<open>#ifndef\<close> process
  their group when the name is, respectively is not, defined at that point.
\<close>

fun step :: "directive \<Rightarrow> env \<Rightarrow> env"
  and run :: "directive list \<Rightarrow> env \<Rightarrow> env" where
  "step (Define n m) e = e(n \<mapsto> m)"
| "step (Undef n) e = e(n := None)"
| "step (Ifdef n ds) e = (if e n \<noteq> None then run ds e else e)"
| "step (Ifndef n ds) e = (if e n = None then run ds e else e)"
| "step (Comment c) e = e"
| "run [] e = e"
| "run (d # ds) e = run ds (step d e)"

subsection \<open>Macro replacement\<close>

text \<open>
  Macro replacement as the C standard describes it (C11, 6.10.3).  An identifier that is
  an object-like macro is replaced by its replacement list; a function-like macro name
  followed by \<^verbatim>\<open>(\<close> is replaced with its arguments: each parameter of the replacement
  list is replaced by the matching argument after all macros in that argument have been
  expanded (6.10.3.1), and the result is rescanned together with the tokens that follow
  (6.10.3.4).  A macro name met again while it is being replaced is not replaced, there
  or later: every token carries the names that are hidden from it.  The header uses
  neither \<^verbatim>\<open>#\<close> nor \<^verbatim>\<open>##\<close> nor variable arguments.
\<close>

type_synonym htoken = "token \<times> string list"

definition plain :: "token list \<Rightarrow> htoken list" where
  "plain ts = map (\<lambda>tok. (tok, [])) ts"

definition hide :: "string list \<Rightarrow> htoken list \<Rightarrow> htoken list" where
  "hide xs ts = map (\<lambda>(tok, hs). (tok, xs @ hs)) ts"

text \<open>
  The arguments of an invocation, from the token after the opening parenthesis on: the
  tokens between the commas that are not inside nested parentheses, up to the matching
  closing parenthesis.  The result holds the arguments, the hidden names of the closing
  parenthesis and the tokens after it; an argument list that is not closed is an error.
\<close>

fun args_of ::
  "nat \<Rightarrow> htoken list \<Rightarrow> htoken list list \<Rightarrow> htoken list
   \<Rightarrow> (htoken list list \<times> string list \<times> htoken list) option" where
  "args_of d [] acc cur = None"
| "args_of d ((tok, hs) # ts) acc cur =
     (if tok = Punct ''('' then args_of (Suc d) ts acc ((tok, hs) # cur)
      else if tok = Punct '')'' then
        (case d of
           0 \<Rightarrow> Some (rev (rev cur # acc), hs, ts)
         | Suc d' \<Rightarrow> args_of d' ts acc ((tok, hs) # cur))
      else if tok = Punct '','' \<and> d = 0 then args_of d ts (rev cur # acc) []
      else args_of d ts acc ((tok, hs) # cur))"

text \<open>
  The arguments must be as many as the parameters (empty parentheses are no argument for
  a macro without parameters, one empty argument otherwise).
\<close>

definition arguments :: "string list \<Rightarrow> htoken list list \<Rightarrow> htoken list list option" where
  "arguments ps args =
     (if ps = [] \<and> args = [[]] then Some []
      else if length args = length ps then Some args
      else None)"

text \<open>
  The replacement list with each parameter replaced by its argument, the argument
  expanded by \<open>f\<close>.
\<close>

fun instantiate ::
  "(htoken list \<Rightarrow> htoken list option) \<Rightarrow> (string \<times> htoken list) list \<Rightarrow> token list
   \<Rightarrow> htoken list option" where
  "instantiate f bs [] = Some []"
| "instantiate f bs (Ident x # body) =
     (case map_of bs x of
        Some a \<Rightarrow>
          (case f a of
             None \<Rightarrow> None
           | Some a' \<Rightarrow> map_option ((@) a') (instantiate f bs body))
      | None \<Rightarrow> map_option ((#) (Ident x, [])) (instantiate f bs body))"
| "instantiate f bs (tok # body) = map_option ((#) (tok, [])) (instantiate f bs body)"

text \<open>
  Scanning a token list for macros to replace.  Replacement need not end (a table may
  hold an endless chain of macros), so the scan is given a bound \<open>n\<close> on the
  replacements it may make: each replacement takes one from it, for the rest of the scan
  and for the expansion of each argument.  The result is \<open>None\<close> when the bound
  does not suffice and when an invocation is in error (an argument list that is not
  closed, a wrong number of arguments).  Where the standard leaves the outcome open (a
  hidden name that comes to stand before a parenthesis of the following text), the name
  stays hidden.
\<close>

fun expand :: "nat \<Rightarrow> env \<Rightarrow> htoken list \<Rightarrow> htoken list option" where
  "expand n t [] = Some []"
| "expand n t ((Ident x, hs) # ts) =
     (if x \<in> set hs then map_option ((#) (Ident x, hs)) (expand n t ts)
      else
        (case t x of
           None \<Rightarrow> map_option ((#) (Ident x, hs)) (expand n t ts)
         | Some (Object body) \<Rightarrow>
             (case n of
                0 \<Rightarrow> None
              | Suc m \<Rightarrow> expand m t (hide (x # hs) (plain body) @ ts))
         | Some (Function ps body) \<Rightarrow>
             (case ts of
                [] \<Rightarrow> Some [(Ident x, hs)]
              | (tok, hs') # ts' \<Rightarrow>
                  if tok = Punct ''('' then
                    (case n of
                       0 \<Rightarrow> None
                     | Suc m \<Rightarrow>
                         (case args_of 0 ts' [] [] of
                            None \<Rightarrow> None
                          | Some (args, hs'', rest) \<Rightarrow>
                              (case arguments ps args of
                                 None \<Rightarrow> None
                               | Some as \<Rightarrow>
                                   (case instantiate (expand m t) (zip ps as) body of
                                      None \<Rightarrow> None
                                    | Some s \<Rightarrow>
                                        expand m t
                                          (hide (x # filter (\<lambda>h. h \<in> set hs'') hs) s
                                           @ rest)))))
                  else map_option ((#) (Ident x, hs)) (expand n t ts))))"
| "expand n t (th # ts) = map_option ((#) th) (expand n t ts)"

text \<open>A piece of text after macro replacement.\<close>

definition preprocess :: "nat \<Rightarrow> env \<Rightarrow> token list \<Rightarrow> token list option" where
  "preprocess n t ts = map_option (map fst) (expand n t (plain ts))"

text \<open>
  The invocation \<^verbatim>\<open>k(args)\<close> in a piece of text, for arguments already told apart:
  what the text holds after it is replaced.
\<close>

definition call :: "nat \<Rightarrow> env \<Rightarrow> string \<Rightarrow> token list list \<Rightarrow> token list option" where
  "call n t k args =
     (case t k of
        Some (Function ps body) \<Rightarrow>
          (if length args = length ps then
             (case instantiate (expand n t) (zip ps (map plain args)) body of
                None \<Rightarrow> None
              | Some s \<Rightarrow> map_option (map fst) (expand n t (hide [k] s)))
           else None)
      | _ \<Rightarrow> None)"


text \<open>Words that are no macros of a table.\<close>

definition names :: "env \<Rightarrow> string list \<Rightarrow> bool" where
  "names t ws = list_all (\<lambda>w. t w = None) ws"

subsection \<open>The header\<close>

text \<open>
  \<^verbatim>\<open>acrust.h\<close>, line by line and in the order of the file, one definition for each of
  its commented sections (the license comment is left out).
\<close>

text \<open>Lines 47 to 53: common (in-kernel/user-space) ACPICA configuration.\<close>

definition common_config :: "directive list" where
  "common_config =
    [Comment ''Common (in-kernel/user-space) ACPICA configuration'',
     Define ''ACPI_USE_DO_WHILE_0'' (Object []),
     Define ''ACPI_IGNORE_PACKAGE_RESOLUTION_ERRORS'' (Object []),
     Define ''ACPI_USE_SYSTEM_INTTYPES'' (Object []),
     Define ''ACPI_USE_GPE_POLLING'' (Object [])]"

text \<open>Lines 55 to 69: kernel specific ACPICA configuration.\<close>

definition kernel_config :: "directive list" where
  "kernel_config =
    [Comment ''Kernel specific ACPICA configuration'',
     Ifdef ''CONFIG_ACPI_REDUCED_HARDWARE_ONLY''
      [Define ''ACPI_REDUCED_HARDWARE'' (Object [Num ''1''])],
     Ifdef ''CONFIG_ACPI_DEBUGGER''
      [Define ''ACPI_DEBUGGER'' (Object [])],
     Ifdef ''CONFIG_ACPI_DEBUG''
      [Define ''ACPI_MUTEX_DEBUG'' (Object [])],
     Define ''ACPI_INIT_FUNCTION'' (Object [Ident ''__init''])]"

text \<open>Lines 71 to 74: the default debug level.\<close>

definition debug_default :: "directive list" where
  "debug_default =
    [Comment ''Use a specific bugging default separate from ACPICA'',
     Undef ''ACPI_DEBUG_DEFAULT'',
     Define ''ACPI_DEBUG_DEFAULT''
       (Object [Punct ''('', Ident ''ACPI_LV_INFO'', Punct ''|'', Ident ''ACPI_LV_REPAIR'',
                Punct '')''])]"

text \<open>
  Lines 76 to 105: the group under \<^verbatim>\<open>#ifndef CONFIG_ACPI\<close>.  The five stub macros
  share the shape \<^verbatim>\<open>static ACPI_INLINE Prototype { return ...; }\<close> and differ in
  what is returned.
\<close>

definition stub :: "token list \<Rightarrow> token list" where
  "stub ret = [Ident ''static'', Ident ''ACPI_INLINE'', Ident ''Prototype'', Punct ''{'',
               Ident ''return''] @ ret @ [Punct '';'', Punct ''}'']"

definition no_acpi :: "directive list" where
  "no_acpi =
    [Comment ''External globals for __KERNEL__, stubs is needed'',
     Define ''ACPI_GLOBAL'' (Function [''t'', ''a''] []),
     Define ''ACPI_INIT_GLOBAL'' (Function [''t'', ''a'', ''b''] []),
     Comment ''Generating stubs for configurable ACPICA macros'',
     Define ''ACPI_NO_MEM_ALLOCATIONS'' (Object []),
     Comment ''Generating stubs for configurable ACPICA functions'',
     Define ''ACPI_NO_ERROR_MESSAGES'' (Object []),
     Undef ''ACPI_DEBUG_OUTPUT'',
     Comment ''External interface for __KERNEL__, stub is needed'',
     Define ''ACPI_EXTERNAL_RETURN_STATUS''
       (Function [''Prototype'']
          (stub [Punct ''('', Ident ''AE_NOT_CONFIGURED'', Punct '')''])),
     Define ''ACPI_EXTERNAL_RETURN_OK''
       (Function [''Prototype''] (stub [Punct ''('', Ident ''AE_OK'', Punct '')''])),
     Define ''ACPI_EXTERNAL_RETURN_VOID''
       (Function [''Prototype''] (stub [])),
     Define ''ACPI_EXTERNAL_RETURN_UINT32''
       (Function [''Prototype''] (stub [Punct ''('', Num ''0'', Punct '')''])),
     Define ''ACPI_EXTERNAL_RETURN_PTR''
       (Function [''Prototype''] (stub [Punct ''('', Ident ''NULL'', Punct '')'']))]"

text \<open>Lines 107 to 121: host-dependent types and defines.\<close>

definition host_types :: "directive list" where
  "host_types =
    [Comment ''Host-dependent types and defines for in-kernel ACPICA'',
     Define ''ACPI_MACHINE_WIDTH'' (Object [Ident ''BITS_PER_LONG'']),
     Define ''ACPI_USE_NATIVE_MATH64'' (Object []),
     Define ''ACPI_EXPORT_SYMBOL''
       (Function [''symbol'']
          [Ident ''EXPORT_SYMBOL'', Punct ''('', Ident ''symbol'', Punct '')'', Punct '';'']),
     Define ''strtoul'' (Object [Ident ''simple_strtoul'']),
     Define ''ACPI_CACHE_T'' (Object [Ident ''struct'', Ident ''kmem_cache'']),
     Define ''ACPI_SPINLOCK'' (Object [Ident ''spinlock_t'', Punct ''*'']),
     Define ''ACPI_CPU_FLAGS'' (Object [Ident ''unsigned'', Ident ''long'']),
     Define ''ACPI_UINTPTR_T'' (Object [Ident ''uintptr_t'']),
     Define ''ACPI_TO_INTEGER''
       (Function [''p'']
          [Punct ''('', Punct ''('', Ident ''uintptr_t'', Punct '')'',
           Punct ''('', Ident ''p'', Punct '')'', Punct '')'']),
     Define ''ACPI_OFFSET''
       (Function [''d'', ''f'']
          [Ident ''offsetof'', Punct ''('', Ident ''d'', Punct '','', Ident ''f'',
           Punct '')''])]"

text \<open>
  Lines 123 to 152: the alternate-prototype markers,
  \<^verbatim>\<open>#define ACPI_USE_ALTERNATE_PROTOTYPE_<entry point>\<close>, in three commented groups.
\<close>

definition alt_prefix :: string where
  "alt_prefix = ''ACPI_USE_ALTERNATE_PROTOTYPE_''"

definition alt :: "string \<Rightarrow> directive" where
  "alt f = Define (alt_prefix @ f) (Object [])"

definition alternate_prototypes :: "directive list" where
  "alternate_prototypes =
    [Comment ''Overrides for in-kernel ACPICA'',
     alt ''AcpiOsInitialize'',
     alt ''AcpiOsTerminate'',
     alt ''AcpiOsAllocate'',
     alt ''AcpiOsAllocateZeroed'',
     alt ''AcpiOsFree'',
     alt ''AcpiOsAcquireObject'',
     alt ''AcpiOsGetThreadId'',
     alt ''AcpiOsCreateLock'',
     Comment ''OSL interfaces used by debugger/disassembler'',
     alt ''AcpiOsReadable'',
     alt ''AcpiOsWritable'',
     alt ''AcpiOsInitializeDebugger'',
     alt ''AcpiOsTerminateDebugger'',
     Comment ''OSL interfaces used by utilities'',
     alt ''AcpiOsRedirectOutput'',
     alt ''AcpiOsGetTableByName'',
     alt ''AcpiOsGetTableByIndex'',
     alt ''AcpiOsGetTableByAddress'',
     alt ''AcpiOsOpenDirectory'',
     alt ''AcpiOsGetNextFilename'',
     alt ''AcpiOsCloseDirectory'']"

text \<open>Lines 154 to 165: the message macros and the struct initializer.\<close>

definition messages :: "directive list" where
  "messages =
    [Define ''ACPI_MSG_ERROR'' (Object [Ident ''KERN_ERR'', StrLit []]),
     Define ''ACPI_MSG_EXCEPTION'' (Object [Ident ''KERN_ERR'', StrLit ''@FATAL'']),
     Define ''ACPI_MSG_WARNING'' (Object [Ident ''KERN_WARNING'', StrLit []]),
     Define ''ACPI_MSG_INFO'' (Object [Ident ''KERN_INFO'', StrLit []]),
     Define ''ACPI_MSG_BIOS_ERROR''
       (Object [Ident ''KERN_ERR'', StrLit ''ACPI BIOS Error (bug): '']),
     Define ''ACPI_MSG_BIOS_WARNING''
       (Object [Ident ''KERN_WARNING'', StrLit ''ACPI BIOS Warning (bug): '']),
     Comment ''Linux wants to use designated initializers for function pointer structs.'',
     Define ''ACPI_STRUCT_INIT''
       (Function [''field'', ''value'']
          [Punct ''.'', Ident ''field'', Punct ''='', Ident ''value''])]"

text \<open>
  The whole file: everything sits inside the include guard
  \<^verbatim>\<open>#ifndef __ACRUST_H__\<close>, whose first line defines the guard.
\<close>

definition guarded :: "directive list" where
  "guarded =
     Define ''__ACRUST_H__'' (Object []) #
     common_config @ kernel_config @ debug_default @
     Ifndef ''CONFIG_ACPI'' no_acpi #
     host_types @ alternate_prototypes @ messages"

definition acrust_h :: "directive list" where
  "acrust_h =
    [Comment ''Name: acrust.h - OS specific defines, etc. for acpi-bindings. Adapted from aclinux.h'',
     Ifndef ''__ACRUST_H__'' guarded]"

text \<open>Including the header: the macro table after it, from the one before it.\<close>

definition acrust :: "env \<Rightarrow> env" where
  "acrust e = run acrust_h e"

subsection \<open>The text of the header, without its condition structure\<close>

text \<open>
  The lines of a header in the order of the file, conditional groups opened up: what the
  file says, whatever the configuration.
\<close>

fun flat :: "directive \<Rightarrow> directive list"
  and flats :: "directive list \<Rightarrow> directive list" where
  "flat (Ifdef n ds) = flats ds"
| "flat (Ifndef n ds) = flats ds"
| "flat (Define n m) = [Define n m]"
| "flat (Undef n) = [Undef n]"
| "flat (Comment c) = [Comment c]"
| "flats [] = []"
| "flats (d # ds) = flat d @ flats ds"

text \<open>The name a line defines or undefines.\<close>

fun touches :: "directive \<Rightarrow> string list" where
  "touches (Define n m) = [n]"
| "touches (Undef n) = [n]"
| "touches d = []"

definition touched :: "directive list \<Rightarrow> string list" where
  "touched ds = concat (map touches (flats ds))"

text \<open>The definitions a header text holds, in order: name and macro.\<close>

fun definition_of :: "directive \<Rightarrow> (string \<times> macro) list" where
  "definition_of (Define n m) = [(n, m)]"
| "definition_of d = []"

definition definitions :: "directive list \<Rightarrow> (string \<times> macro) list" where
  "definitions ds = concat (map definition_of (flats ds))"

text \<open>
  Each defined name with the comment it stands under (the last comment before it in the
  file).
\<close>

fun headed :: "string \<Rightarrow> directive list \<Rightarrow> (string \<times> string) list" where
  "headed h [] = []"
| "headed h (Comment c # ds) = headed c ds"
| "headed h (Define n m # ds) = (n, h) # headed h ds"
| "headed h (d # ds) = headed h ds"

definition headings :: "directive list \<Rightarrow> (string \<times> string) list" where
  "headings ds = headed [] (flats ds)"

subsection \<open>What the stub macros generate\<close>

text \<open>
  The stub macros expand to C function definitions.  To say what such a definition does,
  its text is read as specifiers, prototype and a body of simple statements, and the
  body is executed over a host state \<open>'h\<close>.  The host and the library are not part of
  this header, so the effect of whatever a statement calls or assigns is a parameter
  \<open>eff\<close>: the effect on the host state of evaluating the given tokens.  Reading a
  name or a constant has no effect, with or without parentheses around it.
\<close>

datatype expr = Name string | Const string | Paren expr | Complex "token list"

text \<open>
  \<open>closes d ts\<close>: with \<open>d\<close> parentheses open, \<open>ts\<close> closes the last of them with
  its last token and not before.
\<close>

fun closes :: "nat \<Rightarrow> token list \<Rightarrow> bool" where
  "closes d [] = False"
| "closes d (t # ts) =
     (if t = Punct ''('' then closes (Suc d) ts
      else if t = Punct '')'' then
        (case d of 0 \<Rightarrow> False | Suc d' \<Rightarrow> if d' = 0 then ts = [] else closes d' ts)
      else closes d ts)"


datatype stmt = Return "expr option" | Expression "token list"




record fundef =
  specifiers :: "token list"
  prototype :: "token list"
  body :: "stmt list"




















text \<open>
  Modelled from the spec: the library's own definitions of the five stub macros, which
  are in its headers (not under src/) and take effect where this header has defined
  none.  The specification has an entry point in Delegate mode resolve to the host's or
  library's real implementation "with the identical signature; no wrapping, no
  additional indirection layer": the macro declares the prototype it is given.
\<close>

definition delegate :: "string \<Rightarrow> directive" where
  "delegate k =
     Ifndef k [Define k (Function [''Prototype''] [Ident ''Prototype'', Punct '';''])]"




subsection \<open>Primitive types, message classes, debug level, alternate prototypes\<close>

text \<open>The abstract primitive names of the specification and the macros that bind them.\<close>

datatype primitive = Cache | Spinlock | CpuFlags | UnsignedPointerWidth | MachineWidth

fun primitive_macro :: "primitive \<Rightarrow> string" where
  "primitive_macro Cache = ''ACPI_CACHE_T''"
| "primitive_macro Spinlock = ''ACPI_SPINLOCK''"
| "primitive_macro CpuFlags = ''ACPI_CPU_FLAGS''"
| "primitive_macro UnsignedPointerWidth = ''ACPI_UINTPTR_T''"
| "primitive_macro MachineWidth = ''ACPI_MACHINE_WIDTH''"

definition binding :: "env \<Rightarrow> primitive \<Rightarrow> token list option" where
  "binding e p =
     (case e (primitive_macro p) of Some (Object ts) \<Rightarrow> Some ts | _ \<Rightarrow> None)"

text \<open>All the definitions of a name in a header text.\<close>

definition definitions_of :: "directive list \<Rightarrow> string \<Rightarrow> macro list" where
  "definitions_of ds n = map snd (filter (\<lambda>d. fst d = n) (definitions ds))"

text \<open>
  The message classes and their macros.  A message macro is a host log level followed by
  a string literal, the prefix.
\<close>

datatype msg_class = Error | Exception | Warning | Info | BiosError | BiosWarning

fun msg_macro :: "msg_class \<Rightarrow> string" where
  "msg_macro Error = ''ACPI_MSG_ERROR''"
| "msg_macro Exception = ''ACPI_MSG_EXCEPTION''"
| "msg_macro Warning = ''ACPI_MSG_WARNING''"
| "msg_macro Info = ''ACPI_MSG_INFO''"
| "msg_macro BiosError = ''ACPI_MSG_BIOS_ERROR''"
| "msg_macro BiosWarning = ''ACPI_MSG_BIOS_WARNING''"

definition msg_mapping :: "env \<Rightarrow> msg_class \<Rightarrow> (string \<times> string) option" where
  "msg_mapping e c =
     (case e (msg_macro c) of
        Some (Object [Ident level, StrLit pre]) \<Rightarrow> Some (level, pre)
      | _ \<Rightarrow> None)"

definition msg_macros :: "directive list \<Rightarrow> string list" where
  "msg_macros ds = filter (prefix ''ACPI_MSG_'') (map fst (definitions ds))"

text \<open>
  The value of a debug-level expression \<^verbatim>\<open>(A | B | ...)\<close>.  The values of the level
  names are the library's (\<^verbatim>\<open>acoutput.h\<close>, not part of this header): the parameter
  \<open>lv\<close>, 32-bit masks.
\<close>

fun or_terms :: "(string \<Rightarrow> 32 word) \<Rightarrow> token list \<Rightarrow> 32 word option" where
  "or_terms lv [Ident x] = Some (lv x)"
| "or_terms lv (Ident x # Punct p # ts) =
     (if p = ''|'' then map_option (\<lambda>w. lv x OR w) (or_terms lv ts) else None)"
| "or_terms lv ts = None"

definition eval_mask :: "(string \<Rightarrow> 32 word) \<Rightarrow> token list \<Rightarrow> 32 word option" where
  "eval_mask lv ts =
     (case ts of
        Punct p # rest \<Rightarrow>
          if p = ''('' \<and> closes 1 rest then or_terms lv (butlast rest) else None
      | _ \<Rightarrow> or_terms lv ts)"

definition debug_level :: "(string \<Rightarrow> 32 word) \<Rightarrow> env \<Rightarrow> 32 word option" where
  "debug_level lv e =
     (case e ''ACPI_DEBUG_DEFAULT'' of Some (Object ts) \<Rightarrow> eval_mask lv ts | _ \<Rightarrow> None)"

text \<open>The lines of a header text that define or undefine a given name.\<close>

definition lines_on :: "directive list \<Rightarrow> string \<Rightarrow> directive list" where
  "lines_on ds n = filter (\<lambda>d. n \<in> set (touches d)) (flats ds)"

text \<open>
  The entry points that have an alternate-prototype marker, each with the comment its
  marker stands under.
\<close>

definition alternate_entries :: "directive list \<Rightarrow> (string \<times> string) list" where
  "alternate_entries ds =
     map (\<lambda>(n, h). (drop (length alt_prefix) n, h))
       (filter (\<lambda>(n, h). prefix alt_prefix n) (headings ds))"

text \<open>
  The two comments of the header that speak of debugging/disassembly and utility
  tooling.
\<close>

definition tooling :: "string \<Rightarrow> bool" where
  "tooling h =
     (h = ''OSL interfaces used by debugger/disassembler''
      \<or> h = ''OSL interfaces used by utilities'')"

section \<open>General facts about running directives\<close>

lemma run_append: "run (xs @ ys) e = run ys (run xs e)"
  by (induction xs arbitrary: e) simp_all

lemma flats_append: "flats (xs @ ys) = flats xs @ flats ys"
  by (induction xs) simp_all

lemma touched_append: "touched (xs @ ys) = touched xs @ touched ys"
  by (simp add: touched_def flats_append)

lemma touched_Cons: "touched (d # ds) = touched [d] @ touched ds"
  by (simp add: touched_def)

text \<open>A run changes only names that the text defines or undefines.\<close>

lemma step_run_frame:
  "n \<notin> set (touched [d]) \<Longrightarrow> step d e n = e n"
  "n \<notin> set (touched ds) \<Longrightarrow> run ds e n = e n"
proof (induction d e and ds e rule: step_run.induct)
  case (7 d ds e)
  from "7.prems" have a: "n \<notin> set (touched [d])" and b: "n \<notin> set (touched ds)"
    using touched_Cons [of d ds] by auto
  show ?case using "7.IH"(1) [OF a] "7.IH"(2) [OF b] by simp
qed (auto simp: touched_def)

section \<open>What each section of the header defines\<close>

lemma touched_common_config:
  "touched common_config =
     [''ACPI_USE_DO_WHILE_0'', ''ACPI_IGNORE_PACKAGE_RESOLUTION_ERRORS'',
      ''ACPI_USE_SYSTEM_INTTYPES'', ''ACPI_USE_GPE_POLLING'']"
  by (simp add: touched_def common_config_def)

lemma touched_kernel_config:
  "touched kernel_config =
     [''ACPI_REDUCED_HARDWARE'', ''ACPI_DEBUGGER'', ''ACPI_MUTEX_DEBUG'',
      ''ACPI_INIT_FUNCTION'']"
  by (simp add: touched_def kernel_config_def)

lemma touched_debug_default:
  "touched debug_default = [''ACPI_DEBUG_DEFAULT'', ''ACPI_DEBUG_DEFAULT'']"
  by (simp add: touched_def debug_default_def)

lemma touched_no_acpi:
  "touched no_acpi =
     [''ACPI_GLOBAL'', ''ACPI_INIT_GLOBAL'', ''ACPI_NO_MEM_ALLOCATIONS'',
      ''ACPI_NO_ERROR_MESSAGES'', ''ACPI_DEBUG_OUTPUT'', ''ACPI_EXTERNAL_RETURN_STATUS'',
      ''ACPI_EXTERNAL_RETURN_OK'', ''ACPI_EXTERNAL_RETURN_VOID'',
      ''ACPI_EXTERNAL_RETURN_UINT32'', ''ACPI_EXTERNAL_RETURN_PTR'']"
  by (simp add: touched_def no_acpi_def)

lemma touched_host_types:
  "touched host_types =
     [''ACPI_MACHINE_WIDTH'', ''ACPI_USE_NATIVE_MATH64'', ''ACPI_EXPORT_SYMBOL'', ''strtoul'',
      ''ACPI_CACHE_T'', ''ACPI_SPINLOCK'', ''ACPI_CPU_FLAGS'', ''ACPI_UINTPTR_T'',
      ''ACPI_TO_INTEGER'', ''ACPI_OFFSET'']"
  by (simp add: touched_def host_types_def)

lemma touched_alternate_prototypes:
  "touched alternate_prototypes =
     map ((@) alt_prefix)
       [''AcpiOsInitialize'', ''AcpiOsTerminate'', ''AcpiOsAllocate'',
        ''AcpiOsAllocateZeroed'', ''AcpiOsFree'', ''AcpiOsAcquireObject'',
        ''AcpiOsGetThreadId'', ''AcpiOsCreateLock'', ''AcpiOsReadable'', ''AcpiOsWritable'',
        ''AcpiOsInitializeDebugger'', ''AcpiOsTerminateDebugger'', ''AcpiOsRedirectOutput'',
        ''AcpiOsGetTableByName'', ''AcpiOsGetTableByIndex'', ''AcpiOsGetTableByAddress'',
        ''AcpiOsOpenDirectory'', ''AcpiOsGetNextFilename'', ''AcpiOsCloseDirectory'']"
  by (simp add: touched_def alternate_prototypes_def alt_def)

lemma touched_messages:
  "touched messages =
     [''ACPI_MSG_ERROR'', ''ACPI_MSG_EXCEPTION'', ''ACPI_MSG_WARNING'', ''ACPI_MSG_INFO'',
      ''ACPI_MSG_BIOS_ERROR'', ''ACPI_MSG_BIOS_WARNING'', ''ACPI_STRUCT_INIT'']"
  by (simp add: touched_def messages_def)

lemmas touched_sections =
  touched_common_config touched_kernel_config touched_debug_default touched_no_acpi
  touched_host_types touched_alternate_prototypes touched_messages

lemma frame_no_acpi:
  "n \<notin> set (touched no_acpi) \<Longrightarrow> step (Ifndef c no_acpi) X n = X n"
  using step_run_frame(1) [of n "Ifndef c no_acpi" X] by (simp add: touched_def)

lemmas frame = step_run_frame(2) frame_no_acpi touched_sections alt_prefix_def

text \<open>
  A first inclusion (the guard is not yet defined) runs the sections one after the other;
  a later one does nothing.
\<close>

lemma acrust_first:
  assumes "e ''__ACRUST_H__'' = None"
  shows "acrust e =
    run messages (run alternate_prototypes (run host_types
      (step (Ifndef ''CONFIG_ACPI'' no_acpi)
        (run debug_default (run kernel_config (run common_config
          (e(''__ACRUST_H__'' \<mapsto> Object []))))))))"
proof -
  have "acrust e = run guarded e"
    using assms by (simp add: acrust_def acrust_h_def)
  then show ?thesis
    by (simp only: guarded_def run_append run.simps step.simps(1))
qed

lemma acrust_again: "e ''__ACRUST_H__'' \<noteq> None \<Longrightarrow> acrust e = e"
  by (auto simp add: acrust_def acrust_h_def)

lemma before_no_acpi:
  "run debug_default (run kernel_config (run common_config
     (e(''__ACRUST_H__'' \<mapsto> Object [])))) ''CONFIG_ACPI'' = e ''CONFIG_ACPI''"
  by (simp add: frame del: step.simps)

lemma acrust_disabled:
  assumes "e ''__ACRUST_H__'' = None" and "e ''CONFIG_ACPI'' = None"
  shows "acrust e =
    run messages (run alternate_prototypes (run host_types
      (run no_acpi
        (run debug_default (run kernel_config (run common_config
          (e(''__ACRUST_H__'' \<mapsto> Object []))))))))"
  using assms by (simp add: acrust_first before_no_acpi)

lemma acrust_enabled:
  assumes "e ''__ACRUST_H__'' = None" and "e ''CONFIG_ACPI'' \<noteq> None"
  shows "acrust e =
    run messages (run alternate_prototypes (run host_types
      (run debug_default (run kernel_config (run common_config
        (e(''__ACRUST_H__'' \<mapsto> Object [])))))))"
  using assms by (auto simp add: acrust_first before_no_acpi)

text \<open>The definitions of the whole text, section by section.\<close>

lemma definitions_acrust_h:
  "definitions acrust_h =
     (''__ACRUST_H__'', Object []) # definitions common_config @ definitions kernel_config
       @ definitions debug_default @ definitions no_acpi @ definitions host_types
       @ definitions alternate_prototypes @ definitions messages"
  by (simp add: definitions_def acrust_h_def guarded_def flats_append)

lemma names_sections:
  "map fst (definitions common_config) = touched common_config"
  "map fst (definitions kernel_config) = touched kernel_config"
  "map fst (definitions debug_default) = [''ACPI_DEBUG_DEFAULT'']"
  "map fst (definitions no_acpi) =
     [''ACPI_GLOBAL'', ''ACPI_INIT_GLOBAL'', ''ACPI_NO_MEM_ALLOCATIONS'',
      ''ACPI_NO_ERROR_MESSAGES'', ''ACPI_EXTERNAL_RETURN_STATUS'', ''ACPI_EXTERNAL_RETURN_OK'',
      ''ACPI_EXTERNAL_RETURN_VOID'', ''ACPI_EXTERNAL_RETURN_UINT32'',
      ''ACPI_EXTERNAL_RETURN_PTR'']"
  "map fst (definitions host_types) = touched host_types"
  "map fst (definitions alternate_prototypes) = touched alternate_prototypes"
  "map fst (definitions messages) = touched messages"
  by (simp_all add: definitions_def touched_def common_config_def kernel_config_def
      debug_default_def no_acpi_def host_types_def alternate_prototypes_def messages_def
      alt_def)

lemma names_acrust_h:
  "map fst (definitions acrust_h) =
     ''__ACRUST_H__'' # touched common_config @ touched kernel_config
       @ [''ACPI_DEBUG_DEFAULT'']
       @ [''ACPI_GLOBAL'', ''ACPI_INIT_GLOBAL'', ''ACPI_NO_MEM_ALLOCATIONS'',
          ''ACPI_NO_ERROR_MESSAGES'', ''ACPI_EXTERNAL_RETURN_STATUS'',
          ''ACPI_EXTERNAL_RETURN_OK'', ''ACPI_EXTERNAL_RETURN_VOID'',
          ''ACPI_EXTERNAL_RETURN_UINT32'', ''ACPI_EXTERNAL_RETURN_PTR'']
       @ touched host_types @ touched alternate_prototypes @ touched messages"
  by (simp add: definitions_acrust_h names_sections)

lemma definitions_simps:
  "definitions [] = []"
  "definitions (Define n m # ds) = (n, m) # definitions ds"
  "definitions (Undef n # ds) = definitions ds"
  "definitions (Comment c # ds) = definitions ds"
  "definitions (Ifdef n b # ds) = definitions b @ definitions ds"
  "definitions (Ifndef n b # ds) = definitions b @ definitions ds"
  by (simp_all add: definitions_def)

lemmas sections =
  common_config_def kernel_config_def debug_default_def no_acpi_def host_types_def
  alternate_prototypes_def messages_def alt_def alt_prefix_def

text \<open>Lookups after single sections, whatever the macro table \<open>X\<close> before them.\<close>

lemma common_lookup:
  "run common_config X ''ACPI_IGNORE_PACKAGE_RESOLUTION_ERRORS'' = Some (Object [])"
  by (simp add: common_config_def)

lemma host_lookup:
  "run host_types X ''ACPI_CACHE_T'' = Some (Object [Ident ''struct'', Ident ''kmem_cache''])"
  "run host_types X ''ACPI_SPINLOCK'' = Some (Object [Ident ''spinlock_t'', Punct ''*''])"
  "run host_types X ''ACPI_CPU_FLAGS'' = Some (Object [Ident ''unsigned'', Ident ''long''])"
  "run host_types X ''ACPI_UINTPTR_T'' = Some (Object [Ident ''uintptr_t''])"
  "run host_types X ''ACPI_MACHINE_WIDTH'' = Some (Object [Ident ''BITS_PER_LONG''])"
  by (simp_all add: host_types_def)

lemma primitive_defined_once:
  "definitions_of acrust_h (primitive_macro p) =
    (case p of
       Cache \<Rightarrow> [Object [Ident ''struct'', Ident ''kmem_cache'']]
     | Spinlock \<Rightarrow> [Object [Ident ''spinlock_t'', Punct ''*'']]
     | CpuFlags \<Rightarrow> [Object [Ident ''unsigned'', Ident ''long'']]
     | UnsignedPointerWidth \<Rightarrow> [Object [Ident ''uintptr_t'']]
     | MachineWidth \<Rightarrow> [Object [Ident ''BITS_PER_LONG'']])"
  by (cases p)
    (simp_all add: definitions_of_def definitions_acrust_h definitions_simps sections)

lemma messages_lookup:
  "run messages X (msg_macro c) =
     Some (Object (case c of
        Error \<Rightarrow> [Ident ''KERN_ERR'', StrLit []]
      | Exception \<Rightarrow> [Ident ''KERN_ERR'', StrLit ''@FATAL'']
      | Warning \<Rightarrow> [Ident ''KERN_WARNING'', StrLit []]
      | Info \<Rightarrow> [Ident ''KERN_INFO'', StrLit []]
      | BiosError \<Rightarrow> [Ident ''KERN_ERR'', StrLit ''ACPI BIOS Error (bug): '']
      | BiosWarning \<Rightarrow> [Ident ''KERN_WARNING'', StrLit ''ACPI BIOS Warning (bug): '']))"
  by (cases c) (simp_all add: messages_def)

lemma msg_mapping_acrust:
  assumes "e ''__ACRUST_H__'' = None"
  shows "msg_mapping (acrust e) c =
     Some (case c of
        Error \<Rightarrow> (''KERN_ERR'', [])
      | Exception \<Rightarrow> (''KERN_ERR'', ''@FATAL'')
      | Warning \<Rightarrow> (''KERN_WARNING'', [])
      | Info \<Rightarrow> (''KERN_INFO'', [])
      | BiosError \<Rightarrow> (''KERN_ERR'', ''ACPI BIOS Error (bug): '')
      | BiosWarning \<Rightarrow> (''KERN_WARNING'', ''ACPI BIOS Warning (bug): ''))"
  using assms
  by (simp add: msg_mapping_def acrust_first messages_lookup split: msg_class.split)

lemma msg_macros_acrust_h:
  "msg_macros acrust_h =
     map msg_macro [Error, Exception, Warning, Info, BiosError, BiosWarning]"
  by (simp add: msg_macros_def names_acrust_h touched_sections alt_prefix_def)

lemma msg_class_UNIV: "UNIV = set [Error, Exception, Warning, Info, BiosError, BiosWarning]"
proof -
  have "c \<in> set [Error, Exception, Warning, Info, BiosError, BiosWarning]" for c
    by (cases c) simp_all
  then show ?thesis by blast
qed

lemma debug_lookup:
  "run debug_default X ''ACPI_DEBUG_DEFAULT'' =
     Some (Object [Punct ''('', Ident ''ACPI_LV_INFO'', Punct ''|'', Ident ''ACPI_LV_REPAIR'',
                   Punct '')''])"
  by (simp add: debug_default_def)

lemma lines_on_debug_default:
  "lines_on acrust_h ''ACPI_DEBUG_DEFAULT'' =
     [Undef ''ACPI_DEBUG_DEFAULT'',
      Define ''ACPI_DEBUG_DEFAULT''
       (Object [Punct ''('', Ident ''ACPI_LV_INFO'', Punct ''|'', Ident ''ACPI_LV_REPAIR'',
                Punct '')''])]"
  by (simp add: lines_on_def acrust_h_def guarded_def flats_append sections)

text \<open>Including the header a second time changes nothing.\<close>

lemma acrust_idem: "acrust (acrust e) = acrust e"
proof (cases "e ''__ACRUST_H__'' = None")
  case True
  have "acrust e ''__ACRUST_H__'' = Some (Object [])"
    using True by (simp add: acrust_first frame del: step.simps)
  then show ?thesis by (simp add: acrust_again)
next
  case False
  then show ?thesis by (simp add: acrust_again)
qed

lemma no_acpi_lookup:
  "run no_acpi X ''ACPI_GLOBAL'' = Some (Function [''t'', ''a''] [])"
  "run no_acpi X ''ACPI_INIT_GLOBAL'' = Some (Function [''t'', ''a'', ''b''] [])"
  "run no_acpi X ''ACPI_NO_MEM_ALLOCATIONS'' = Some (Object [])"
  "run no_acpi X ''ACPI_NO_ERROR_MESSAGES'' = Some (Object [])"
  "run no_acpi X ''ACPI_DEBUG_OUTPUT'' = None"
  by (simp_all add: no_acpi_def)


lemma acrust_no_acpi:
  assumes "e ''__ACRUST_H__'' = None" and "e ''CONFIG_ACPI'' = None"
    and "n \<in> set (touched no_acpi)"
  shows "acrust e n = run no_acpi (run debug_default (run kernel_config (run common_config
          (e(''__ACRUST_H__'' \<mapsto> Object []))))) n"
  using assms(3) unfolding acrust_disabled [OF assms(1,2)]
  by (auto simp add: frame simp del: step.simps)

lemma acrust_keeps:
  assumes "e ''__ACRUST_H__'' = None" and "e ''CONFIG_ACPI'' \<noteq> None"
    and "n \<in> set (touched no_acpi)"
  shows "acrust e n = e n"
  using assms(3) unfolding acrust_enabled [OF assms(1,2)]
  by (auto simp add: frame simp del: step.simps)

lemma alternate_entries_acrust_h:
  "alternate_entries acrust_h =
     [(''AcpiOsInitialize'', ''Overrides for in-kernel ACPICA''),
      (''AcpiOsTerminate'', ''Overrides for in-kernel ACPICA''),
      (''AcpiOsAllocate'', ''Overrides for in-kernel ACPICA''),
      (''AcpiOsAllocateZeroed'', ''Overrides for in-kernel ACPICA''),
      (''AcpiOsFree'', ''Overrides for in-kernel ACPICA''),
      (''AcpiOsAcquireObject'', ''Overrides for in-kernel ACPICA''),
      (''AcpiOsGetThreadId'', ''Overrides for in-kernel ACPICA''),
      (''AcpiOsCreateLock'', ''Overrides for in-kernel ACPICA''),
      (''AcpiOsReadable'', ''OSL interfaces used by debugger/disassembler''),
      (''AcpiOsWritable'', ''OSL interfaces used by debugger/disassembler''),
      (''AcpiOsInitializeDebugger'', ''OSL interfaces used by debugger/disassembler''),
      (''AcpiOsTerminateDebugger'', ''OSL interfaces used by debugger/disassembler''),
      (''AcpiOsRedirectOutput'', ''OSL interfaces used by utilities''),
      (''AcpiOsGetTableByName'', ''OSL interfaces used by utilities''),
      (''AcpiOsGetTableByIndex'', ''OSL interfaces used by utilities''),
      (''AcpiOsGetTableByAddress'', ''OSL interfaces used by utilities''),
      (''AcpiOsOpenDirectory'', ''OSL interfaces used by utilities''),
      (''AcpiOsGetNextFilename'', ''OSL interfaces used by utilities''),
      (''AcpiOsCloseDirectory'', ''OSL interfaces used by utilities'')]"
  by (simp add: alternate_entries_def headings_def acrust_h_def guarded_def flats_append
      sections)

lemma run_markers:
  assumes "\<forall>d \<in> set ds. (\<exists>c. d = Comment c) \<or> (\<exists>m. d = Define m (Object []))"
    and "n \<in> set (touched ds)"
  shows "run ds X n = Some (Object [])"
  using assms
proof (induction ds arbitrary: X)
  case Nil
  then show ?case by (simp add: touched_def)
next
  case (Cons d ds)
  show ?case
  proof (cases "n \<in> set (touched ds)")
    case True
    with Cons show ?thesis by simp
  next
    case False
    with Cons.prems(2) have "n \<in> set (touched [d])"
      using touched_Cons [of d ds] by simp
    moreover from Cons.prems(1) have "(\<exists>c. d = Comment c) \<or> (\<exists>m. d = Define m (Object []))"
      by simp
    ultimately have "step d X n = Some (Object [])"
      by (auto simp: touched_def)
    with False show ?thesis
      by (simp add: step_run_frame(2))
  qed
qed

lemma alternate_lookup:
  "n \<in> set (touched alternate_prototypes) \<Longrightarrow> run alternate_prototypes X n = Some (Object [])"
  by (rule run_markers) (simp_all add: alternate_prototypes_def alt_def)

lemma acrust_alternate:
  assumes "e ''__ACRUST_H__'' = None" and "n \<in> set (touched alternate_prototypes)"
  shows "acrust e n = Some (Object [])"
proof -
  from assms(2) have "n \<notin> set (touched messages)"
    by (auto simp add: touched_sections alt_prefix_def)
  then show ?thesis
    using assms by (simp add: acrust_first step_run_frame(2) alternate_lookup del: step.simps)
qed




section \<open>Macro replacement and the stub macros\<close>





lemma map_option_Cons_append:
  "map_option ((#) a) (map_option ((@) A) r) = map_option ((@) (a # A)) r"
  by (cases r) simp_all





lemma hide_append: "hide xs (A @ B) = hide xs A @ hide xs B"
  by (simp add: hide_def)




















text \<open>The library's defaults.\<close>

lemma delegate_bound: "T k = Some m \<Longrightarrow> step (delegate k) T = T"
  by (simp add: delegate_def)









text \<open>
  An invocation as it is written in a text, with one argument, is replaced by what
  \<open>call\<close> gives.
\<close>

lemma call_as_written:
  assumes "t k = Some (Function [p] ws)"
    and "args_of 0 (plain (P @ [Punct '')''])) [] [] = Some ([plain P], [], [])"
  shows "preprocess (Suc n) t (Ident k # Punct ''('' # P @ [Punct '')'']) = call n t k [P]"
  using assms
  by (simp add: preprocess_def call_def plain_def arguments_def hide_def
      split: option.split)


section \<open>The claims\<close>

text \<open>
  In the theorems below \<open>e\<close> is the macro table the header is included into: any build
  configuration, with the feature switches \<^verbatim>\<open>CONFIG_ACPI\<close>, \<^verbatim>\<open>CONFIG_ACPI_DEBUGGER\<close>,
  \<^verbatim>\<open>CONFIG_ACPI_DEBUG\<close>, \<^verbatim>\<open>CONFIG_ACPI_REDUCED_HARDWARE_ONLY\<close> defined or not and
  anything else defined before.  The hypothesis on it that all theorems share is that
  the include guard is not defined yet, that is, that the header is really read.
\<close>

text \<open>
  Claim C5.  Each of the five abstract primitive names is bound to exactly one concrete
  host type in every build configuration: the cache object to \<^verbatim>\<open>struct kmem_cache\<close>,
  the spinlock handle to \<^verbatim>\<open>spinlock_t *\<close>, the CPU-flags word to \<^verbatim>\<open>unsigned long\<close>,
  the pointer-sized unsigned integer to \<^verbatim>\<open>uintptr_t\<close> and the machine width to
  \<^verbatim>\<open>BITS_PER_LONG\<close>; the text of the header has one definition for each.
\<close>

theorem primitive_bindings:
  assumes "e ''__ACRUST_H__'' = None"
  shows "binding (acrust e) Cache = Some [Ident ''struct'', Ident ''kmem_cache'']
       \<and> binding (acrust e) Spinlock = Some [Ident ''spinlock_t'', Punct ''*'']
       \<and> binding (acrust e) CpuFlags = Some [Ident ''unsigned'', Ident ''long'']
       \<and> binding (acrust e) UnsignedPointerWidth = Some [Ident ''uintptr_t'']
       \<and> binding (acrust e) MachineWidth = Some [Ident ''BITS_PER_LONG'']
       \<and> length (definitions_of acrust_h (primitive_macro p)) = 1"
  using assms
  by (simp add: binding_def acrust_first frame host_lookup primitive_defined_once
      split: primitive.split del: step.simps)

theorem primitive_bindings_witness:
  "binding (acrust Map.empty) Spinlock = Some [Ident ''spinlock_t'', Punct ''*'']
   \<and> binding (acrust [''CONFIG_ACPI'' \<mapsto> Object []]) Spinlock
       = Some [Ident ''spinlock_t'', Punct ''*'']
   \<and> binding (acrust [''CONFIG_ACPI'' \<mapsto> Object []]) MachineWidth
       = Some [Ident ''BITS_PER_LONG'']
   \<and> length (definitions_of acrust_h (primitive_macro Cache)) = 1"
  using primitive_bindings [of Map.empty Cache]
    primitive_bindings [of "[''CONFIG_ACPI'' \<mapsto> Object []]" Cache]
  by simp

text \<open>
  Claim C9.  The flag that makes the library ignore package resolution errors,
  \<^verbatim>\<open>ACPI_IGNORE_PACKAGE_RESOLUTION_ERRORS\<close>, is defined in every build configuration,
  whatever the feature switches.
\<close>

theorem package_resolution_errors_ignored:
  assumes "e ''__ACRUST_H__'' = None"
  shows "acrust e ''ACPI_IGNORE_PACKAGE_RESOLUTION_ERRORS'' = Some (Object [])"
  using assms by (simp add: acrust_first frame common_lookup del: step.simps)

theorem package_resolution_errors_ignored_witness:
  "acrust Map.empty ''ACPI_IGNORE_PACKAGE_RESOLUTION_ERRORS'' = Some (Object [])
   \<and> acrust [''CONFIG_ACPI'' \<mapsto> Object []] ''ACPI_IGNORE_PACKAGE_RESOLUTION_ERRORS''
       = Some (Object [])"
  using package_resolution_errors_ignored [of Map.empty]
    package_resolution_errors_ignored [of "[''CONFIG_ACPI'' \<mapsto> Object []]"]
  by simp

text \<open>
  Claim C6.  The message mapping is total over exactly the six message classes Error,
  Exception, Warning, Info, BiosError and BiosWarning, with no fallback class: the
  header's message macros are the macros of these six classes and no other, and each
  class is mapped to a pair of a (non-empty) host log level and a prefix.  BiosError is
  mapped to the level \<^verbatim>\<open>KERN_ERR\<close> with the prefix \<^verbatim>\<open>"ACPI BIOS Error (bug): "\<close>, Info
  to the level \<^verbatim>\<open>KERN_INFO\<close> with the empty prefix.  The prefixes of the two BIOS
  classes are not empty.
\<close>

theorem message_mapping_total:
  assumes "e ''__ACRUST_H__'' = None"
  shows "(\<exists>level pre. msg_mapping (acrust e) c = Some (level, pre) \<and> level \<noteq> [])
       \<and> set (msg_macros acrust_h) = range msg_macro
       \<and> length (msg_macros acrust_h) = 6
       \<and> msg_mapping (acrust e) BiosError = Some (''KERN_ERR'', ''ACPI BIOS Error (bug): '')
       \<and> msg_mapping (acrust e) Info = Some (''KERN_INFO'', [])
       \<and> msg_mapping (acrust e) BiosWarning =
           Some (''KERN_WARNING'', ''ACPI BIOS Warning (bug): '')"
proof -
  have "range msg_macro = set (msg_macros acrust_h)"
    unfolding msg_macros_acrust_h msg_class_UNIV by (simp only: set_map)
  moreover have "\<exists>level pre. msg_mapping (acrust e) c = Some (level, pre) \<and> level \<noteq> []"
    using assms by (cases c) (simp_all add: msg_mapping_acrust)
  ultimately show ?thesis
    using assms by (simp add: msg_mapping_acrust msg_macros_acrust_h)
qed

theorem message_mapping_total_witness:
  "msg_mapping (acrust Map.empty) BiosError = Some (''KERN_ERR'', ''ACPI BIOS Error (bug): '')
   \<and> msg_mapping (acrust [''CONFIG_ACPI'' \<mapsto> Object []]) Info = Some (''KERN_INFO'', [])
   \<and> (\<exists>level pre. msg_mapping (acrust Map.empty) Exception = Some (level, pre)
        \<and> level \<noteq> [])"
  using message_mapping_total [of Map.empty Exception]
    message_mapping_total [of "[''CONFIG_ACPI'' \<mapsto> Object []]" Exception]
  by simp

text \<open>
  Claim C7.  In every build configuration, and whatever \<^verbatim>\<open>ACPI_DEBUG_DEFAULT\<close> was
  before, the header leaves it bound to the one constant
  \<^verbatim>\<open>(ACPI_LV_INFO | ACPI_LV_REPAIR)\<close>, whose value is the bitwise or of exactly these
  two level masks.  The header sets it once (one \<^verbatim>\<open>#undef\<close> followed by one
  \<^verbatim>\<open>#define\<close>, no other line on that name) and including the header again changes
  nothing.
\<close>

theorem debug_default_override:
  assumes "e ''__ACRUST_H__'' = None"
  shows "acrust e ''ACPI_DEBUG_DEFAULT'' =
           Some (Object [Punct ''('', Ident ''ACPI_LV_INFO'', Punct ''|'',
                         Ident ''ACPI_LV_REPAIR'', Punct '')''])
       \<and> debug_level lv (acrust e) = Some (lv ''ACPI_LV_INFO'' OR lv ''ACPI_LV_REPAIR'')
       \<and> lines_on acrust_h ''ACPI_DEBUG_DEFAULT'' =
           [Undef ''ACPI_DEBUG_DEFAULT'',
            Define ''ACPI_DEBUG_DEFAULT''
              (Object [Punct ''('', Ident ''ACPI_LV_INFO'', Punct ''|'',
                       Ident ''ACPI_LV_REPAIR'', Punct '')''])]
       \<and> acrust (acrust e) = acrust e"
proof -
  have bound: "acrust e ''ACPI_DEBUG_DEFAULT'' =
           Some (Object [Punct ''('', Ident ''ACPI_LV_INFO'', Punct ''|'',
                         Ident ''ACPI_LV_REPAIR'', Punct '')''])"
    using assms by (simp add: acrust_first frame debug_lookup del: step.simps)
  have "debug_level lv (acrust e) = Some (lv ''ACPI_LV_INFO'' OR lv ''ACPI_LV_REPAIR'')"
    by (simp add: debug_level_def bound eval_mask_def)
  with bound show ?thesis
    by (simp only: lines_on_debug_default acrust_idem simp_thms)
qed

theorem debug_default_override_witness:
  "acrust [''ACPI_DEBUG_DEFAULT'' \<mapsto> Object [Ident ''ACPI_LV_INIT'']] ''ACPI_DEBUG_DEFAULT'' =
     Some (Object [Punct ''('', Ident ''ACPI_LV_INFO'', Punct ''|'',
                   Ident ''ACPI_LV_REPAIR'', Punct '')''])
   \<and> debug_level
        (\<lambda>n. if n = ''ACPI_LV_INFO'' then 4 else if n = ''ACPI_LV_REPAIR'' then 8 else 0)
        (acrust [''ACPI_DEBUG_DEFAULT'' \<mapsto> Object [Ident ''ACPI_LV_INIT'']]) = Some 12"
  using debug_default_override
    [of "[''ACPI_DEBUG_DEFAULT'' \<mapsto> Object [Ident ''ACPI_LV_INIT'']]"
      "\<lambda>n. if n = ''ACPI_LV_INFO'' then 4 else if n = ''ACPI_LV_REPAIR'' then 8 else 0"]
  by simp

text \<open>
  Claim C4, as amended.  The alternate-prototype markers cover nineteen entry points,
  standing under three comments of the header: eight under "Overrides for in-kernel
  ACPICA", four under "OSL interfaces used by debugger/disassembler" and seven under
  "OSL interfaces used by utilities".  The marker of each of them is defined in every
  build configuration, whatever the feature switches.
\<close>

theorem alternate_prototypes_unconditional:
  assumes "e ''__ACRUST_H__'' = None"
  shows "alternate_entries acrust_h =
     [(''AcpiOsInitialize'', ''Overrides for in-kernel ACPICA''),
      (''AcpiOsTerminate'', ''Overrides for in-kernel ACPICA''),
      (''AcpiOsAllocate'', ''Overrides for in-kernel ACPICA''),
      (''AcpiOsAllocateZeroed'', ''Overrides for in-kernel ACPICA''),
      (''AcpiOsFree'', ''Overrides for in-kernel ACPICA''),
      (''AcpiOsAcquireObject'', ''Overrides for in-kernel ACPICA''),
      (''AcpiOsGetThreadId'', ''Overrides for in-kernel ACPICA''),
      (''AcpiOsCreateLock'', ''Overrides for in-kernel ACPICA''),
      (''AcpiOsReadable'', ''OSL interfaces used by debugger/disassembler''),
      (''AcpiOsWritable'', ''OSL interfaces used by debugger/disassembler''),
      (''AcpiOsInitializeDebugger'', ''OSL interfaces used by debugger/disassembler''),
      (''AcpiOsTerminateDebugger'', ''OSL interfaces used by debugger/disassembler''),
      (''AcpiOsRedirectOutput'', ''OSL interfaces used by utilities''),
      (''AcpiOsGetTableByName'', ''OSL interfaces used by utilities''),
      (''AcpiOsGetTableByIndex'', ''OSL interfaces used by utilities''),
      (''AcpiOsGetTableByAddress'', ''OSL interfaces used by utilities''),
      (''AcpiOsOpenDirectory'', ''OSL interfaces used by utilities''),
      (''AcpiOsGetNextFilename'', ''OSL interfaces used by utilities''),
      (''AcpiOsCloseDirectory'', ''OSL interfaces used by utilities'')]
       \<and> (\<forall>f \<in> set (map fst (alternate_entries acrust_h)).
             acrust e (alt_prefix @ f) = Some (Object []))"
proof
  show "alternate_entries acrust_h =
     [(''AcpiOsInitialize'', ''Overrides for in-kernel ACPICA''),
      (''AcpiOsTerminate'', ''Overrides for in-kernel ACPICA''),
      (''AcpiOsAllocate'', ''Overrides for in-kernel ACPICA''),
      (''AcpiOsAllocateZeroed'', ''Overrides for in-kernel ACPICA''),
      (''AcpiOsFree'', ''Overrides for in-kernel ACPICA''),
      (''AcpiOsAcquireObject'', ''Overrides for in-kernel ACPICA''),
      (''AcpiOsGetThreadId'', ''Overrides for in-kernel ACPICA''),
      (''AcpiOsCreateLock'', ''Overrides for in-kernel ACPICA''),
      (''AcpiOsReadable'', ''OSL interfaces used by debugger/disassembler''),
      (''AcpiOsWritable'', ''OSL interfaces used by debugger/disassembler''),
      (''AcpiOsInitializeDebugger'', ''OSL interfaces used by debugger/disassembler''),
      (''AcpiOsTerminateDebugger'', ''OSL interfaces used by debugger/disassembler''),
      (''AcpiOsRedirectOutput'', ''OSL interfaces used by utilities''),
      (''AcpiOsGetTableByName'', ''OSL interfaces used by utilities''),
      (''AcpiOsGetTableByIndex'', ''OSL interfaces used by utilities''),
      (''AcpiOsGetTableByAddress'', ''OSL interfaces used by utilities''),
      (''AcpiOsOpenDirectory'', ''OSL interfaces used by utilities''),
      (''AcpiOsGetNextFilename'', ''OSL interfaces used by utilities''),
      (''AcpiOsCloseDirectory'', ''OSL interfaces used by utilities'')]"
    by (rule alternate_entries_acrust_h)
  have names: "map ((@) alt_prefix) (map fst (alternate_entries acrust_h)) =
      touched alternate_prototypes"
    by (simp add: alternate_entries_acrust_h touched_alternate_prototypes)
  show "\<forall>f \<in> set (map fst (alternate_entries acrust_h)).
          acrust e (alt_prefix @ f) = Some (Object [])"
  proof
    fix f
    assume "f \<in> set (map fst (alternate_entries acrust_h))"
    then have "alt_prefix @ f \<in> set (map ((@) alt_prefix) (map fst (alternate_entries acrust_h)))"
      by (simp only: set_map) (rule imageI)
    then have "alt_prefix @ f \<in> set (touched alternate_prototypes)"
      by (simp only: names)
    then show "acrust e (alt_prefix @ f) = Some (Object [])"
      using assms by (simp only: acrust_alternate)
  qed
qed

text \<open>
  The amended claim at two macro tables, without and with \<^verbatim>\<open>CONFIG_ACPI\<close>.
\<close>

theorem alternate_prototypes_unconditional_witness:
  "acrust Map.empty ''ACPI_USE_ALTERNATE_PROTOTYPE_AcpiOsReadable'' = Some (Object [])
   \<and> acrust [''CONFIG_ACPI'' \<mapsto> Object []] ''ACPI_USE_ALTERNATE_PROTOTYPE_AcpiOsReadable'' = Some (Object [])
   \<and> acrust [''CONFIG_ACPI'' \<mapsto> Object []] ''ACPI_USE_ALTERNATE_PROTOTYPE_AcpiOsFree'' = Some (Object [])"
  using alternate_prototypes_unconditional [of Map.empty]
     alternate_prototypes_unconditional [of "[''CONFIG_ACPI'' \<mapsto> Object []]"]
  by (simp add: alternate_entries_acrust_h alt_prefix_def)

text \<open>
  Claim C4 as it is stated (the markers cover only entry points of debugging,
  disassembly and utility tooling) fails: the memory allocator entry point
  \<^verbatim>\<open>AcpiOsAllocate\<close> has a marker, defined in the empty configuration too, and stands
  under "Overrides for in-kernel ACPICA", none of the two tooling comments.
\<close>

theorem alternate_not_only_tooling:
  "(''AcpiOsAllocate'', ''Overrides for in-kernel ACPICA'') \<in> set (alternate_entries acrust_h)
   \<and> \<not> tooling ''Overrides for in-kernel ACPICA''
   \<and> acrust Map.empty (alt_prefix @ ''AcpiOsAllocate'') = Some (Object [])"
  by (simp add: alternate_entries_acrust_h tooling_def acrust_alternate touched_alternate_prototypes)



text \<open>
  Claim C10.  With \<^verbatim>\<open>CONFIG_ACPI\<close> undefined the header does more than generate
  stubs: it defines \<^verbatim>\<open>ACPI_GLOBAL(t, a)\<close> and \<^verbatim>\<open>ACPI_INIT_GLOBAL(t, a, b)\<close> with an
  empty replacement list, so that every declaration of a library global, initializer
  included, is replaced by nothing, whatever its arguments; it defines
  \<^verbatim>\<open>ACPI_NO_MEM_ALLOCATIONS\<close> and \<^verbatim>\<open>ACPI_NO_ERROR_MESSAGES\<close>; and it undefines
  \<^verbatim>\<open>ACPI_DEBUG_OUTPUT\<close>.  With \<^verbatim>\<open>CONFIG_ACPI\<close> defined the header leaves these five
  names as it found them.
\<close>

theorem no_acpi_configuration:
  assumes "e ''__ACRUST_H__'' = None"
  shows "(e ''CONFIG_ACPI'' = None \<longrightarrow>
            acrust e ''ACPI_GLOBAL'' = Some (Function [''t'', ''a''] [])
          \<and> acrust e ''ACPI_INIT_GLOBAL'' = Some (Function [''t'', ''a'', ''b''] [])
          \<and> call n (acrust e) ''ACPI_GLOBAL'' [ty, name] = Some []
          \<and> call n (acrust e) ''ACPI_INIT_GLOBAL'' [ty, name, init] = Some []
          \<and> acrust e ''ACPI_NO_MEM_ALLOCATIONS'' = Some (Object [])
          \<and> acrust e ''ACPI_NO_ERROR_MESSAGES'' = Some (Object [])
          \<and> acrust e ''ACPI_DEBUG_OUTPUT'' = None)
       \<and> (e ''CONFIG_ACPI'' \<noteq> None \<longrightarrow>
            (\<forall>n \<in> set [''ACPI_GLOBAL'', ''ACPI_INIT_GLOBAL'', ''ACPI_NO_MEM_ALLOCATIONS'',
                        ''ACPI_NO_ERROR_MESSAGES'', ''ACPI_DEBUG_OUTPUT'']. acrust e n = e n))"
proof (intro conjI impI)
  assume off: "e ''CONFIG_ACPI'' = None"
  note at = acrust_no_acpi [OF assms off]
  show "acrust e ''ACPI_GLOBAL'' = Some (Function [''t'', ''a''] [])"
    by (simp add: at touched_no_acpi no_acpi_lookup)
  then show "call n (acrust e) ''ACPI_GLOBAL'' [ty, name] = Some []"
    by (simp add: call_def hide_def)
  show "acrust e ''ACPI_INIT_GLOBAL'' = Some (Function [''t'', ''a'', ''b''] [])"
    by (simp add: at touched_no_acpi no_acpi_lookup)
  then show "call n (acrust e) ''ACPI_INIT_GLOBAL'' [ty, name, init] = Some []"
    by (simp add: call_def hide_def)
  show "acrust e ''ACPI_NO_MEM_ALLOCATIONS'' = Some (Object [])"
    by (simp add: at touched_no_acpi no_acpi_lookup)
  show "acrust e ''ACPI_NO_ERROR_MESSAGES'' = Some (Object [])"
    by (simp add: at touched_no_acpi no_acpi_lookup)
  show "acrust e ''ACPI_DEBUG_OUTPUT'' = None"
    by (simp add: at touched_no_acpi no_acpi_lookup)
next
  assume on: "e ''CONFIG_ACPI'' \<noteq> None"
  show "\<forall>n \<in> set [''ACPI_GLOBAL'', ''ACPI_INIT_GLOBAL'', ''ACPI_NO_MEM_ALLOCATIONS'',
                        ''ACPI_NO_ERROR_MESSAGES'', ''ACPI_DEBUG_OUTPUT'']. acrust e n = e n"
    by (simp add: acrust_keeps [OF assms on] touched_no_acpi)
qed

text \<open>
  The theorem at two macro tables in which \<^verbatim>\<open>ACPI_DEBUG_OUTPUT\<close> is defined before the
  header, without and with \<^verbatim>\<open>CONFIG_ACPI\<close>.
\<close>

theorem no_acpi_configuration_witness:
  "call 0 (acrust [''ACPI_DEBUG_OUTPUT'' \<mapsto> Object []]) ''ACPI_INIT_GLOBAL''
      [[Ident ''UINT32''], [Ident ''AcpiDbgLevel''], [Ident ''ACPI_DEBUG_DEFAULT'']] = Some []
   \<and> acrust [''ACPI_DEBUG_OUTPUT'' \<mapsto> Object []] ''ACPI_DEBUG_OUTPUT'' = None
   \<and> acrust [''ACPI_DEBUG_OUTPUT'' \<mapsto> Object [], ''CONFIG_ACPI'' \<mapsto> Object []]
        ''ACPI_DEBUG_OUTPUT'' = Some (Object [])
   \<and> acrust [''ACPI_DEBUG_OUTPUT'' \<mapsto> Object [], ''CONFIG_ACPI'' \<mapsto> Object []]
        ''ACPI_GLOBAL'' = None"
  using no_acpi_configuration [of "[''ACPI_DEBUG_OUTPUT'' \<mapsto> Object []]" 0
       "[Ident ''UINT32'']" "[Ident ''AcpiDbgLevel'']" "[Ident ''ACPI_DEBUG_DEFAULT'']"]
    no_acpi_configuration [of "[''ACPI_DEBUG_OUTPUT'' \<mapsto> Object [], ''CONFIG_ACPI'' \<mapsto> Object []]"]
  by simp


text \<open>
  The three theorems on the stub macros speak of the function that a stub macro
  generates for a prototype \<open>P\<close>, in the table after the header.  What is generated
  depends on that table, since the prototype is macro-replaced before it is put in and
  the whole is rescanned.  The hypotheses say what the table is taken to be: the words
  \<open>stub_words\<close> are names, \<^verbatim>\<open>ACPI_INLINE\<close> stands for the specifiers \<open>I\<close>, and
  \<open>P\<close> is replaced, within the bound \<open>n\<close>, to the prototype \<open>X\<close> in
  which nothing is left to replace (\<^verbatim>\<open>ACPI_INIT_FUNCTION\<close> in it, for one, has become
  \<^verbatim>\<open>__init\<close> by line 69 of the header).
\<close>










end
